theory Spec2Isabelle
  imports Complex_Main "HOL-Library.Word"
begin

section \<open>Vehicle insurance renewal: status evaluation and billing\<close>

text \<open>
  A shallow embedding of \<^verbatim>\<open>vehicleregestration.cpp\<close>.

  Conventions of the model:
  \<^item> C++ \<^verbatim>\<open>int\<close> is \<open>32 word\<close> and \<^verbatim>\<open>long long\<close> is \<open>64 word\<close>, both read as two's
    complement by \<open>sint\<close>; \<open>+\<close> and \<open>-\<close> wrap around. The conversion
    \<^verbatim>\<open>static_cast<int>\<close> from \<^verbatim>\<open>long long\<close> keeps the low 32 bits.
  \<^item> C++ \<^verbatim>\<open>double\<close> is \<open>real\<close>: the arithmetic is exact, rounding is not modelled.
  \<^item> \<^verbatim>\<open>std::string\<close> is \<open>string\<close>; \<^verbatim>\<open>std::tolower\<close> and \<^verbatim>\<open>std::toupper\<close> act on the
    ASCII letters only (the program never leaves the "C" locale).
  \<^item> What the program reads from its environment is a parameter of the function that
    reads it: the system year, the day difference computed through \<^verbatim>\<open>mktime\<close>, and the
    values typed at the console. Printing is not modelled.
\<close>

subsection \<open>Helper structures\<close>

type_synonym cint = "32 word"
type_synonym clonglong = "64 word"

record PolicyDate =
  day :: cint
  month :: cint
  year :: cint

record Policy =
  registrationDate :: PolicyDate
  renewalDueDate :: PolicyDate
  status :: string

subsection \<open>Date utilities\<close>

text \<open>
  \<^verbatim>\<open>daysBetween(d1, d2)\<close> goes through \<^verbatim>\<open>mktime\<close>, \<^verbatim>\<open>difftime\<close> and \<^verbatim>\<open>llround\<close> of the C
  library and the local time zone. Its callers take it as a parameter of this type.
\<close>

type_synonym daysBetween_fn = "PolicyDate \<Rightarrow> PolicyDate \<Rightarrow> clonglong"

definition calculateRenewalDate :: "PolicyDate \<Rightarrow> PolicyDate" where
  "calculateRenewalDate from = from\<lparr>year := year from + 1\<rparr>"

subsection \<open>Vehicle\<close>

record Vehicle =
  make_v :: string
  model :: string
  year_v :: cint
  originalValue :: real
  fuelType :: string
  policy :: Policy

text \<open>The fields \<^verbatim>\<open>Vehicle::make\<close> and \<^verbatim>\<open>Vehicle::year\<close> are \<open>make_v\<close> and \<open>year_v\<close>:
  \<open>make\<close> is the record's own constructor and \<open>year\<close> the field of \<open>PolicyDate\<close>.\<close>

definition Vehicle_ctor ::
  "string \<Rightarrow> string \<Rightarrow> cint \<Rightarrow> real \<Rightarrow> string \<Rightarrow> PolicyDate \<Rightarrow> Vehicle" where
  "Vehicle_ctor m mdl y val ft regDate =
     \<lparr>make_v = m, model = mdl, year_v = y, originalValue = val, fuelType = ft,
      policy = \<lparr>registrationDate = regDate,
                renewalDueDate = calculateRenewalDate regDate,
                status = ''New''\<rparr>\<rparr>"

definition getRenewalDueDate :: "Vehicle \<Rightarrow> PolicyDate" where
  "getRenewalDueDate v = renewalDueDate (policy v)"

definition getRegistrationDate :: "Vehicle \<Rightarrow> PolicyDate" where
  "getRegistrationDate v = registrationDate (policy v)"

definition getPolicyStatus :: "Vehicle \<Rightarrow> string" where
  "getPolicyStatus v = status (policy v)"

definition setPolicyStatus :: "Vehicle \<Rightarrow> string \<Rightarrow> Vehicle" where
  "setPolicyStatus v s = v\<lparr>policy := (policy v)\<lparr>status := s\<rparr>\<rparr>"

definition setRenewalDueDate :: "Vehicle \<Rightarrow> PolicyDate \<Rightarrow> Vehicle" where
  "setRenewalDueDate v d = v\<lparr>policy := (policy v)\<lparr>renewalDueDate := d\<rparr>\<rparr>"

subsection \<open>Insurance calculator\<close>

definition BASE_RATE_PERCENTAGE :: real where "BASE_RATE_PERCENTAGE = 0.025"
definition AGE_DEPRECIATION_RATE :: real where "AGE_DEPRECIATION_RATE = 0.03"
definition MINIMUM_AGE_FACTOR :: real where "MINIMUM_AGE_FACTOR = 0.7"
definition MINIMUM_PREMIUM :: real where "MINIMUM_PREMIUM = 5000"
definition GRACE_PERIOD_DAYS :: cint where "GRACE_PERIOD_DAYS = 30"
definition FINE_PER_DAY :: real where "FINE_PER_DAY = 50"

text \<open>Signed maximum of two \<^verbatim>\<open>int\<close>s, as \<^verbatim>\<open>std::max<int>\<close>: the second argument when the
  first is less than it.\<close>

definition max_int :: "cint \<Rightarrow> cint \<Rightarrow> cint" where
  "max_int a b = (if a <s b then b else a)"

text \<open>An \<^verbatim>\<open>int\<close> converted to \<^verbatim>\<open>double\<close>.\<close>

definition double_of_int :: "cint \<Rightarrow> real" where
  "double_of_int i = real_of_int (sint i)"

definition tolower_c :: "char \<Rightarrow> char" where
  "tolower_c c =
     (let n = (of_char c :: nat) in if 65 \<le> n \<and> n \<le> 90 then char_of (n + 32) else c)"

definition toupper_c :: "char \<Rightarrow> char" where
  "toupper_c c =
     (let n = (of_char c :: nat) in if 97 \<le> n \<and> n \<le> 122 then char_of (n - 32) else c)"

definition getBaseRate :: "Vehicle \<Rightarrow> real" where
  "getBaseRate vehicle = originalValue vehicle * BASE_RATE_PERCENTAGE"

text \<open>\<open>currentYear\<close> is what \<^verbatim>\<open>getCurrentSystemYear()\<close> returns.\<close>

definition getAgeFactor :: "cint \<Rightarrow> cint \<Rightarrow> real" where
  "getAgeFactor currentYear y =
     (let age = max_int 0 (currentYear - y);
          factor = 1 - double_of_int age * AGE_DEPRECIATION_RATE
      in max MINIMUM_AGE_FACTOR factor)"

definition getFuelTypeAdjustment :: "string \<Rightarrow> real" where
  "getFuelTypeAdjustment ft =
     (let f = map tolower_c ft
      in if f = ''electric'' then - 500
         else if f = ''diesel'' then 250
         else 0)"

definition calculatePremium :: "cint \<Rightarrow> Vehicle \<Rightarrow> real" where
  "calculatePremium currentYear vehicle =
     (let baseRate = getBaseRate vehicle;
          ageFactor = getAgeFactor currentYear (year_v vehicle);
          fuelAdjustment = getFuelTypeAdjustment (fuelType vehicle);
          premium = baseRate * ageFactor + fuelAdjustment
      in if premium < MINIMUM_PREMIUM then MINIMUM_PREMIUM else premium)"

definition calculateLateFine :: "cint \<Rightarrow> real" where
  "calculateLateFine daysOverdue =
     (if daysOverdue \<le>s GRACE_PERIOD_DAYS then 0
      else let fineDays = daysOverdue - GRACE_PERIOD_DAYS
           in double_of_int fineDays * FINE_PER_DAY)"

subsection \<open>Payment processor\<close>

record BillBreakdown =
  basePremium :: real
  fine :: real
  discount :: real
  convenienceFee :: real
  emiInterest :: real
  gst :: real
  total :: real

definition BillBreakdown_ctor :: BillBreakdown where
  "BillBreakdown_ctor =
     \<lparr>basePremium = 0, fine = 0, discount = 0, convenienceFee = 0, emiInterest = 0,
      gst = 0, total = 0\<rparr>"

text \<open>The enumeration \<^verbatim>\<open>PaymentProcessor::Method\<close> is its underlying integer: the source
  makes a \<^verbatim>\<open>Method\<close> from an \<^verbatim>\<open>int\<close> by \<^verbatim>\<open>static_cast\<close>, and its \<^verbatim>\<open>switch\<close> has a
  \<^verbatim>\<open>default\<close> branch.\<close>

type_synonym Method = cint

definition Card :: Method where "Card = 1"
definition UPI :: Method where "UPI = 2"
definition NetBanking :: Method where "NetBanking = 3"
definition Branch :: Method where "Branch = 4"
definition EMI3 :: Method where "EMI3 = 5"
definition EMI6 :: Method where "EMI6 = 6"

definition GST_RATE :: real where "GST_RATE = 0.18"

definition applyPromo :: "string \<Rightarrow> real \<Rightarrow> real" where
  "applyPromo code subtotalBeforeGST =
     (let c = map toupper_c code
      in if c = ''LOYAL5'' then min 500 (0.05 * subtotalBeforeGST)
         else if c = ''FIRST100'' then 100
         else 0)"

definition quote :: "Method \<Rightarrow> real \<Rightarrow> real \<Rightarrow> string \<Rightarrow> BillBreakdown" where
  "quote method basePremium' fine' promoCode =
     (let conv =
            (if method = Card then min 150 (0.015 * (basePremium' + fine'))
             else if method = UPI then 0
             else if method = NetBanking then 10
             else if method = Branch then 50
             else if method = EMI3 then 0
             else if method = EMI6 then 0
             else 0);
          months0 = (0 :: cint);
          months1 = (if method = EMI3 then 3 else months0);
          months = (if method = EMI6 then 6 else months1);
          emiInt =
            (if 0 <s months
             then let principal = basePremium' + fine'
                  in 0.12 * principal * (double_of_int months / 12)
             else 0);
          subtotalBeforeGST = basePremium' + fine' + conv + emiInt;
          discount' = applyPromo promoCode subtotalBeforeGST;
          subtotalBeforeGST' = max 0 (subtotalBeforeGST - discount');
          gst' = subtotalBeforeGST' * GST_RATE
      in \<lparr>basePremium = basePremium', fine = fine', discount = discount',
          convenienceFee = conv, emiInterest = emiInt, gst = gst',
          total = subtotalBeforeGST' + gst'\<rparr>)"

text \<open>The local variables \<^verbatim>\<open>conv\<close> and \<^verbatim>\<open>emiInt\<close> of \<^verbatim>\<open>quote\<close>, each as a function of the
  arguments: the \<^verbatim>\<open>switch\<close>, and the two tests on \<^verbatim>\<open>months\<close> followed by the interest.\<close>

definition quote_conv :: "Method \<Rightarrow> real \<Rightarrow> real \<Rightarrow> real" where
  "quote_conv m bp f =
     (if m = Card then min 150 (0.015 * (bp + f))
      else if m = UPI then 0
      else if m = NetBanking then 10
      else if m = Branch then 50
      else if m = EMI3 then 0
      else if m = EMI6 then 0
      else 0)"

definition quote_emiInt :: "Method \<Rightarrow> real \<Rightarrow> real \<Rightarrow> real" where
  "quote_emiInt m bp f =
     (if 0 <s (if m = EMI6 then 6 else if m = EMI3 then 3 else (0 :: cint))
             then 0.12 * (bp + f) * (double_of_int (if m = EMI6 then 6 else if m = EMI3 then 3 else 0) / 12)
             else 0)"

text \<open>\<open>ch\<close> is the character read from the console after the payment summary.\<close>

definition confirmAndPay :: "BillBreakdown \<Rightarrow> Method \<Rightarrow> char \<Rightarrow> bool" where
  "confirmAndPay b m ch = (ch = CHR ''y'' \<or> ch = CHR ''Y'')"

subsection \<open>Policy status\<close>

text \<open>The fields \<^verbatim>\<open>StatusResult::status\<close> and \<^verbatim>\<open>StatusResult::fine\<close> are \<open>status_s\<close> and
  \<open>fine_s\<close>, apart from the fields of \<open>Policy\<close> and \<open>BillBreakdown\<close>.\<close>

record StatusResult =
  status_s :: string
  daysToDueOrOverdue :: clonglong
  fine_s :: real
  expired :: bool

text \<open>\<^verbatim>\<open>std::llabs\<close>; C++ leaves it undefined at the least \<^verbatim>\<open>long long\<close>, where the
  negation here wraps around.\<close>

definition llabs :: "clonglong \<Rightarrow> clonglong" where
  "llabs x = (if x <s 0 then - x else x)"

text \<open>The implicit conversion of an \<^verbatim>\<open>int\<close> to \<^verbatim>\<open>long long\<close> extends the sign;
  \<^verbatim>\<open>static_cast<int>\<close> of a \<^verbatim>\<open>long long\<close> keeps the low 32 bits.\<close>

definition longlong_of_int :: "cint \<Rightarrow> clonglong" where
  "longlong_of_int i = scast i"

definition int_of_longlong :: "clonglong \<Rightarrow> cint" where
  "int_of_longlong x = ucast x"

definition evaluateStatus :: "daysBetween_fn \<Rightarrow> Vehicle \<Rightarrow> PolicyDate \<Rightarrow> StatusResult" where
  "evaluateStatus daysBetween v currentDate =
     (let diff = daysBetween (getRenewalDueDate v) currentDate
      in if 0 \<le>s diff
         then \<lparr>status_s = ''Active'', daysToDueOrOverdue = diff, fine_s = 0,
               expired = False\<rparr>
         else let overdueDays = llabs diff
              in if overdueDays \<le>s longlong_of_int GRACE_PERIOD_DAYS
                 then \<lparr>status_s = ''Due (Grace Period)'',
                       daysToDueOrOverdue = - overdueDays, fine_s = 0, expired = False\<rparr>
                 else \<lparr>status_s = ''OVERDUE / EXPIRED'',
                       daysToDueOrOverdue = - overdueDays,
                       fine_s = calculateLateFine (int_of_longlong overdueDays),
                       expired = True\<rparr>)"

subsection \<open>Renewal flow\<close>

record BillAndMethod =
  bill :: BillBreakdown
  method_c :: Method
  valid :: bool

definition BillAndMethod_ctor :: BillAndMethod where
  "BillAndMethod_ctor = \<lparr>bill = BillBreakdown_ctor, method_c = UPI, valid = False\<rparr>"

text \<open>What the user types during a renewal: the integer that \<^verbatim>\<open>getValidInput<int>\<close>
  returns for the payment method, the line that \<^verbatim>\<open>getLineTrimmed\<close> returns for the promo
  code, and the character that \<^verbatim>\<open>confirmAndPay\<close> reads.\<close>

record ConsoleInput =
  methodChoice :: cint
  promo :: string
  confirmChar :: char

definition quoteAndChoosePayment :: "real \<Rightarrow> real \<Rightarrow> ConsoleInput \<Rightarrow> BillAndMethod" where
  "quoteAndChoosePayment basePremium' fine' inp =
     (let out = BillAndMethod_ctor
      in if methodChoice inp <s 1 \<or> 6 <s methodChoice inp then out
         else let m = methodChoice inp
              in out\<lparr>method_c := m,
                     bill := quote m basePremium' fine' (promo inp),
                     valid := True\<rparr>)"

text \<open>The message \<^verbatim>\<open>performRenewal\<close> ends with: renewal disabled, selection invalid,
  payment cancelled, or the receipt of a committed renewal.\<close>

datatype RenewalOutcome = RenewalDisabled | SelectionInvalid | PaymentCancelled | Renewed

text \<open>\<^verbatim>\<open>performRenewal\<close> mutates the vehicle it is given by reference; the model returns
  the vehicle as it is when the function returns, with the outcome.\<close>

definition performRenewal ::
  "daysBetween_fn \<Rightarrow> cint \<Rightarrow> ConsoleInput \<Rightarrow> Vehicle \<Rightarrow> PolicyDate
     \<Rightarrow> RenewalOutcome \<times> Vehicle" where
  "performRenewal daysBetween currentYear inp v currentDate =
     (let basePremium' = calculatePremium currentYear v;
          s = evaluateStatus daysBetween v currentDate
      in if \<not> expired s then (RenewalDisabled, v)
         else let v1 = setPolicyStatus v (status_s s);
                  qm = quoteAndChoosePayment basePremium' (fine_s s) inp
              in if \<not> valid qm then (SelectionInvalid, v1)
                 else if \<not> confirmAndPay (bill qm) (method_c qm) (confirmChar inp)
                 then (PaymentCancelled, v1)
                 else let oldDue = getRenewalDueDate v1;
                          newDue = calculateRenewalDate oldDue;
                          v2 = setRenewalDueDate v1 newDue;
                          v3 = setPolicyStatus v2 ''Active''
                      in (Renewed, v3))"

subsection \<open>Example data\<close>

text \<open>An environment in which the C library reports \<open>n\<close> days between the two dates
  at hand.\<close>

definition daysBetween_const :: "clonglong \<Rightarrow> daysBetween_fn" where
  "daysBetween_const n d1 d2 = n"

text \<open>A diesel vehicle of 2020 worth 500000, registered on 01/01/2023 and so due on
  01/01/2024, looked at on 15/03/2024, 74 days after the due date.\<close>

definition example_vehicle :: Vehicle where
  "example_vehicle =
     Vehicle_ctor ''Tata'' ''Nexon'' 2020 500000 ''Diesel'' \<lparr>day = 1, month = 1, year = 2023\<rparr>"

definition example_today :: PolicyDate where
  "example_today = \<lparr>day = 15, month = 3, year = 2024\<rparr>"

section \<open>Properties\<close>

subsection \<open>Signed arithmetic without overflow\<close>

lemma sint_sub30: "30 < sint (d :: cint) \<Longrightarrow> sint (d - 30) = sint d - 30"
  using sint_lt [of d] by (simp add: sint_word_ariths signed_take_bit_int_eq_self)

lemma sint_add1: "sint (d :: cint) < 2 ^ 31 - 1 \<Longrightarrow> sint (d + 1) = sint d + 1"
  using sint_ge [of d] by (simp add: sint_word_ariths signed_take_bit_int_eq_self)

subsection \<open>Late fine\<close>

lemma calculateLateFine_eq:
  "calculateLateFine d = (if sint d \<le> 30 then 0 else (real_of_int (sint d) - 30) * 50)"
  by (simp add: calculateLateFine_def GRACE_PERIOD_DAYS_def FINE_PER_DAY_def double_of_int_def
      word_sle_eq sint_sub30 algebra_simps del: of_int_sint)

text \<open>
  Claim C5. For every \<^verbatim>\<open>int\<close> \<open>d\<close>, \<open>calculateLateFine d\<close> is 0 when \<open>d \<le> 30\<close> and
  \<open>(d - 30) * 50\<close> when \<open>d > 30\<close>. So one more day from day 30 on adds exactly 50 (as long
  as \<open>d + 1\<close> is an \<^verbatim>\<open>int\<close>), the fine is strictly increasing from day 30 on, and no cap is
  applied to it.
\<close>

theorem calculateLateFine_schedule:
  "calculateLateFine d = (if sint d \<le> 30 then 0 else (real_of_int (sint d) - 30) * 50)
   \<and> (30 \<le> sint d \<and> sint d < 2 ^ 31 - 1
        \<longrightarrow> calculateLateFine (d + 1) = calculateLateFine d + 50)
   \<and> (30 \<le> sint a \<and> sint a < sint b \<longrightarrow> calculateLateFine a < calculateLateFine b)"
proof (intro conjI impI)
  show "calculateLateFine d = (if sint d \<le> 30 then 0 else (real_of_int (sint d) - 30) * 50)"
    by (rule calculateLateFine_eq)
next
  assume "30 \<le> sint d \<and> sint d < 2 ^ 31 - 1"
  then show "calculateLateFine (d + 1) = calculateLateFine d + 50"
    by (simp add: calculateLateFine_eq sint_add1 del: of_int_sint)
next
  assume "30 \<le> sint a \<and> sint a < sint b"
  then show "calculateLateFine a < calculateLateFine b"
    by (simp add: calculateLateFine_eq del: of_int_sint)
qed

theorem calculateLateFine_schedule_witness:
  "calculateLateFine 74 = 2200
   \<and> 30 \<le> sint (74 :: cint) \<and> sint (74 :: cint) < 2 ^ 31 - 1
   \<and> calculateLateFine (74 + 1) = calculateLateFine 74 + 50
   \<and> 30 \<le> sint (31 :: cint) \<and> sint (31 :: cint) < sint (100 :: cint)
   \<and> calculateLateFine 31 < calculateLateFine 100"
  using calculateLateFine_schedule [of 74 31 100] by simp

subsection \<open>Status evaluation\<close>

lemma sint_neg64:
  "sint (x :: clonglong) \<noteq> - (2 ^ 63) \<Longrightarrow> sint (- x) = - sint x"
  using sint_ge [of x] sint_lt [of x]
  by (simp add: sint_word_ariths signed_take_bit_int_eq_self)

lemma llabs_neg: "sint (x :: clonglong) < 0 \<Longrightarrow> llabs x = - x"
  by (simp add: llabs_def word_sless_alt)

lemma sint_GRACE: "sint (longlong_of_int GRACE_PERIOD_DAYS) = 30"
  by (simp add: longlong_of_int_def GRACE_PERIOD_DAYS_def)

lemma sint_int_of_longlong:
  assumes "- (2 ^ 31) \<le> sint (x :: clonglong)" and "sint x < 2 ^ 31"
  shows "sint (int_of_longlong x) = sint x"
proof -
  have "sint (ucast x :: cint) = signed_take_bit 31 (uint x)"
    by (simp add: signed_ucast_eq)
  also have "\<dots> = signed_take_bit 31 (signed_take_bit 63 (uint x))"
    by (simp add: signed_take_bit_signed_take_bit)
  also have "signed_take_bit 63 (uint x) = sint x"
    by (simp add: sint_uint)
  also have "signed_take_bit 31 (sint x) = sint x"
    using assms by (simp add: signed_take_bit_int_eq_self)
  finally show ?thesis by (simp add: int_of_longlong_def)
qed

lemma evaluateStatus_active:
  "0 \<le> sint (daysBetween (getRenewalDueDate v) currentDate) \<Longrightarrow>
   evaluateStatus daysBetween v currentDate =
     \<lparr>status_s = ''Active'', daysToDueOrOverdue = daysBetween (getRenewalDueDate v) currentDate,
      fine_s = 0, expired = False\<rparr>"
  by (simp add: evaluateStatus_def word_sle_eq)

lemma evaluateStatus_grace:
  assumes "sint (daysBetween (getRenewalDueDate v) currentDate) < 0"
    and "- 30 \<le> sint (daysBetween (getRenewalDueDate v) currentDate)"
  shows "evaluateStatus daysBetween v currentDate =
     \<lparr>status_s = ''Due (Grace Period)'',
      daysToDueOrOverdue = daysBetween (getRenewalDueDate v) currentDate,
      fine_s = 0, expired = False\<rparr>"
  using assms by (simp add: evaluateStatus_def Let_def word_sle_eq sint_GRACE sint_neg64 llabs_neg)

lemma evaluateStatus_expired:
  assumes "sint (daysBetween (getRenewalDueDate v) currentDate) < - 30"
    and "sint (daysBetween (getRenewalDueDate v) currentDate) \<noteq> - (2 ^ 63)"
  shows "evaluateStatus daysBetween v currentDate =
     \<lparr>status_s = ''OVERDUE / EXPIRED'',
      daysToDueOrOverdue = daysBetween (getRenewalDueDate v) currentDate,
      fine_s = calculateLateFine (int_of_longlong (- daysBetween (getRenewalDueDate v) currentDate)),
      expired = True\<rparr>"
  using assms by (simp add: evaluateStatus_def Let_def word_sle_eq sint_GRACE sint_neg64 llabs_neg)

lemma fine_in_int_range:
  assumes "sint (diff :: clonglong) < - 30" and "- (2 ^ 31) < sint diff"
  shows "calculateLateFine (int_of_longlong (- diff)) = (real_of_int (- sint diff) - 30) * 50"
proof -
  have ne: "sint diff \<noteq> - (2 ^ 63)" using assms(2) by simp
  have "sint (int_of_longlong (- diff)) = - sint diff"
    using assms by (simp add: sint_int_of_longlong sint_neg64 [OF ne])
  then show ?thesis using assms(1) by (simp add: calculateLateFine_eq del: of_int_sint)
qed

text \<open>
  Claim C3. Let \<open>diff\<close> be the day difference \<^verbatim>\<open>daysBetween(dueDate, currentDate)\<close>.
  \<open>evaluateStatus\<close> assigns exactly one of the three statuses: \<open>diff \<ge> 0\<close> gives Active,
  not expired, fine 0; \<open>0 > diff \<ge> -30\<close> gives Due (Grace Period), not expired, fine 0;
  \<open>diff < -30\<close> gives OVERDUE / EXPIRED, expired, with the fine \<open>calculateLateFine (- diff)\<close>,
  the argument converted to \<^verbatim>\<open>int\<close> as the call does. While the overdue days fit an
  \<^verbatim>\<open>int\<close> that fine is \<open>(- diff - 30) * 50\<close>. The least \<^verbatim>\<open>long long\<close> is left out: \<^verbatim>\<open>llabs\<close>
  is undefined there, and a rounded quotient of a \<^verbatim>\<open>time_t\<close> difference by 86400 never
  reaches it.
\<close>

theorem evaluateStatus_partition:
  assumes "daysBetween (getRenewalDueDate v) currentDate = diff"
    and "sint diff \<noteq> - (2 ^ 63)"
  shows "(0 \<le> sint diff \<longrightarrow>
            status_s (evaluateStatus daysBetween v currentDate) = ''Active''
          \<and> \<not> expired (evaluateStatus daysBetween v currentDate)
          \<and> fine_s (evaluateStatus daysBetween v currentDate) = 0)
       \<and> (sint diff < 0 \<and> - 30 \<le> sint diff \<longrightarrow>
            status_s (evaluateStatus daysBetween v currentDate) = ''Due (Grace Period)''
          \<and> \<not> expired (evaluateStatus daysBetween v currentDate)
          \<and> fine_s (evaluateStatus daysBetween v currentDate) = 0)
       \<and> (sint diff < - 30 \<longrightarrow>
            status_s (evaluateStatus daysBetween v currentDate) = ''OVERDUE / EXPIRED''
          \<and> expired (evaluateStatus daysBetween v currentDate)
          \<and> fine_s (evaluateStatus daysBetween v currentDate)
              = calculateLateFine (int_of_longlong (- diff)))
       \<and> (sint diff < - 30 \<and> - (2 ^ 31) < sint diff \<longrightarrow>
            fine_s (evaluateStatus daysBetween v currentDate)
              = (real_of_int (- sint diff) - 30) * 50)
       \<and> (status_s (evaluateStatus daysBetween v currentDate) = ''Active''
            \<longleftrightarrow> 0 \<le> sint diff)
       \<and> (status_s (evaluateStatus daysBetween v currentDate) = ''Due (Grace Period)''
            \<longleftrightarrow> sint diff < 0 \<and> - 30 \<le> sint diff)
       \<and> (status_s (evaluateStatus daysBetween v currentDate) = ''OVERDUE / EXPIRED''
            \<longleftrightarrow> sint diff < - 30)"
proof -
  consider (active) "0 \<le> sint diff" | (grace) "sint diff < 0" "- 30 \<le> sint diff"
    | (overdue) "sint diff < - 30"
    by linarith
  then show ?thesis
  proof cases
    case active
    then show ?thesis
      using assms(1) evaluateStatus_active [of daysBetween v currentDate] by simp
  next
    case grace
    then show ?thesis
      using assms(1) evaluateStatus_grace [of daysBetween v currentDate] by simp
  next
    case overdue
    then show ?thesis
      using assms evaluateStatus_expired [of daysBetween v currentDate]
        fine_in_int_range [of diff]
      by (simp del: of_int_sint)
  qed
qed

theorem evaluateStatus_partition_witness:
  "daysBetween_const 10 (getRenewalDueDate example_vehicle) example_today = 10
   \<and> sint (10 :: clonglong) \<noteq> - (2 ^ 63) \<and> 0 \<le> sint (10 :: clonglong)
   \<and> status_s (evaluateStatus (daysBetween_const 10) example_vehicle example_today) = ''Active''
   \<and> daysBetween_const (- 30) (getRenewalDueDate example_vehicle) example_today = - 30
   \<and> sint (- 30 :: clonglong) \<noteq> - (2 ^ 63)
   \<and> sint (- 30 :: clonglong) < 0 \<and> - 30 \<le> sint (- 30 :: clonglong)
   \<and> status_s (evaluateStatus (daysBetween_const (- 30)) example_vehicle example_today)
        = ''Due (Grace Period)''
   \<and> daysBetween_const (- 74) (getRenewalDueDate example_vehicle) example_today = - 74
   \<and> sint (- 74 :: clonglong) \<noteq> - (2 ^ 63)
   \<and> sint (- 74 :: clonglong) < - 30 \<and> - (2 ^ 31) < sint (- 74 :: clonglong)
   \<and> status_s (evaluateStatus (daysBetween_const (- 74)) example_vehicle example_today)
        = ''OVERDUE / EXPIRED''
   \<and> expired (evaluateStatus (daysBetween_const (- 74)) example_vehicle example_today)
   \<and> fine_s (evaluateStatus (daysBetween_const (- 74)) example_vehicle example_today) = 2200"
  using evaluateStatus_partition [of "daysBetween_const 10" example_vehicle example_today 10]
    evaluateStatus_partition [of "daysBetween_const (- 30)" example_vehicle example_today "- 30"]
    evaluateStatus_partition [of "daysBetween_const (- 74)" example_vehicle example_today "- 74"]
  by (simp add: daysBetween_const_def)

text \<open>
  Claim C8 says that the fine is positive exactly when the result is expired, and at
  least 50 then. The code breaks it once the overdue days no longer fit an \<^verbatim>\<open>int\<close>:
  for a policy due on 01/01/1902 and looked at on 01/01/5881600, 2147515597 days later,
  \<^verbatim>\<open>static_cast<int>\<close> turns the overdue days into -2147451699, for which
  \<open>calculateLateFine\<close> returns 0, and the result is expired with no fine.
\<close>

theorem evaluateStatus_expired_without_fine:
  "expired (evaluateStatus (daysBetween_const (- 2147515597))
      (Vehicle_ctor ''Tata'' ''Nexon'' 2020 500000 ''Diesel'' \<lparr>day = 1, month = 1, year = 1901\<rparr>)
      \<lparr>day = 1, month = 1, year = 5881600\<rparr>)
   \<and> fine_s (evaluateStatus (daysBetween_const (- 2147515597))
      (Vehicle_ctor ''Tata'' ''Nexon'' 2020 500000 ''Diesel'' \<lparr>day = 1, month = 1, year = 1901\<rparr>)
      \<lparr>day = 1, month = 1, year = 5881600\<rparr>) = 0"
  by (simp add: evaluateStatus_def daysBetween_const_def llabs_def longlong_of_int_def
      GRACE_PERIOD_DAYS_def int_of_longlong_def calculateLateFine_def Let_def
      word_sle_eq word_sless_alt)

subsection \<open>Payment quote\<close>

lemmas Method_defs = Card_def UPI_def NetBanking_def Branch_def EMI3_def EMI6_def

lemma quote_unfold:
  "quote m bp f p =
     \<lparr>basePremium = bp, fine = f,
      discount = applyPromo p (bp + f + quote_conv m bp f + quote_emiInt m bp f),
      convenienceFee = quote_conv m bp f,
      emiInterest = quote_emiInt m bp f,
      gst = max 0 (bp + f + quote_conv m bp f + quote_emiInt m bp f
              - applyPromo p (bp + f + quote_conv m bp f + quote_emiInt m bp f)) * GST_RATE,
      total = max 0 (bp + f + quote_conv m bp f + quote_emiInt m bp f
              - applyPromo p (bp + f + quote_conv m bp f + quote_emiInt m bp f))
            + max 0 (bp + f + quote_conv m bp f + quote_emiInt m bp f
              - applyPromo p (bp + f + quote_conv m bp f + quote_emiInt m bp f)) * GST_RATE\<rparr>"
  unfolding quote_def Let_def quote_conv_def quote_emiInt_def by (rule refl)

lemma quote_emiInt_eq:
  "quote_emiInt m bp f =
     (if m = EMI6 then 0.12 * (bp + f) * 6 / 12
      else if m = EMI3 then 0.12 * (bp + f) * 3 / 12
      else 0)"
  by (simp add: quote_emiInt_def double_of_int_def word_sless_alt)

lemma convenienceFee_quote: "convenienceFee (quote m bp f p) = quote_conv m bp f"
  by (simp add: quote_unfold)

lemma emiInterest_quote: "emiInterest (quote m bp f p) = quote_emiInt m bp f"
  by (simp add: quote_unfold)

text \<open>
  Claim C4. For every base premium, fine and promo code, the convenience fee and the EMI
  interest of the quote follow the schedule of the method: Card \<open>min 150 (0.015 * (premium +
  fine))\<close>, UPI 0, NetBanking 10, Branch 50, EMI-3 and EMI-6 0, and interest
  \<open>0.12 * (premium + fine) * months / 12\<close> for the 3 and 6 months of EMI-3 and EMI-6, 0 for
  every other method.
\<close>

theorem quote_fee_schedule:
  "convenienceFee (quote Card bp f p) = min 150 (0.015 * (bp + f))
   \<and> emiInterest (quote Card bp f p) = 0
   \<and> convenienceFee (quote UPI bp f p) = 0
   \<and> emiInterest (quote UPI bp f p) = 0
   \<and> convenienceFee (quote NetBanking bp f p) = 10
   \<and> emiInterest (quote NetBanking bp f p) = 0
   \<and> convenienceFee (quote Branch bp f p) = 50
   \<and> emiInterest (quote Branch bp f p) = 0
   \<and> convenienceFee (quote EMI3 bp f p) = 0
   \<and> emiInterest (quote EMI3 bp f p) = 0.12 * (bp + f) * 3 / 12
   \<and> convenienceFee (quote EMI6 bp f p) = 0
   \<and> emiInterest (quote EMI6 bp f p) = 0.12 * (bp + f) * 6 / 12"
  unfolding convenienceFee_quote emiInterest_quote quote_emiInt_eq
  by (simp add: quote_conv_def Method_defs)

text \<open>
  Claim C9. \<open>quote\<close> returns a breakdown for every value of the method, also one that is
  none of the enumerators 1 to 6: the \<^verbatim>\<open>default\<close> branch gives convenience fee 0, no test
  on \<^verbatim>\<open>months\<close> fires, so the interest is 0, and the whole breakdown is the one of UPI for
  the same premium, fine and promo code. (The model of \<open>quote\<close> is a total function, as
  the source has no failing path.)
\<close>

theorem quote_default_branch:
  assumes "sint m < 1 \<or> 6 < sint m"
  shows "quote m bp f p = quote UPI bp f p
       \<and> convenienceFee (quote m bp f p) = 0
       \<and> emiInterest (quote m bp f p) = 0"
proof -
  have ne: "m \<noteq> Card" "m \<noteq> UPI" "m \<noteq> NetBanking" "m \<noteq> Branch" "m \<noteq> EMI3" "m \<noteq> EMI6"
    using assms by (auto simp: Method_defs)
  have c: "quote_conv m bp f = 0" and e: "quote_emiInt m bp f = 0"
    using ne by (simp_all add: quote_conv_def quote_emiInt_eq)
  have c': "quote_conv UPI bp f = 0" and e': "quote_emiInt UPI bp f = 0"
    by (simp_all add: quote_conv_def quote_emiInt_eq Method_defs)
  have q: "quote m bp f p = quote UPI bp f p"
    unfolding quote_unfold c e c' e' by (rule refl)
  have cf: "convenienceFee (quote m bp f p) = 0"
    by (simp only: convenienceFee_quote c)
  have ei: "emiInterest (quote m bp f p) = 0"
    by (simp only: emiInterest_quote e)
  from q cf ei show ?thesis by blast
qed

theorem quote_default_branch_witness:
  "(sint (7 :: Method) < 1 \<or> 6 < sint (7 :: Method))
   \<and> quote 7 11250 2200 ''FIRST100'' = quote UPI 11250 2200 ''FIRST100''
   \<and> convenienceFee (quote 7 11250 2200 ''FIRST100'') = 0
   \<and> emiInterest (quote 7 11250 2200 ''FIRST100'') = 0"
proof -
  have h: "sint (7 :: Method) < 1 \<or> 6 < sint (7 :: Method)" by simp
  from h quote_default_branch [OF h, of 11250 2200 "''FIRST100''"] show ?thesis by blast
qed


lemma quote_conv_nonneg: "0 \<le> bp \<Longrightarrow> 0 \<le> f \<Longrightarrow> 0 \<le> quote_conv m bp f"
  by (simp add: quote_conv_def)

lemma quote_emiInt_nonneg: "0 \<le> bp \<Longrightarrow> 0 \<le> f \<Longrightarrow> 0 \<le> quote_emiInt m bp f"
  by (simp add: quote_emiInt_eq)

lemma applyPromo_le:
  assumes "0 \<le> S" and "map toupper_c p \<noteq> ''FIRST100'' \<or> 100 \<le> S"
  shows "applyPromo p S \<le> S"
  using assms by (auto simp: applyPromo_def Let_def min_def)

text \<open>
  Claim C2, amended. For every method, premium, fine and promo code, with the subtotal
  \<open>S = basePremium + fine + convenienceFee + emiInterest\<close>: \<open>gst = 0.18 * max 0 (S -
  discount)\<close> and \<open>total = max 0 (S - discount) + gst\<close>. The total is \<open>S - discount + gst\<close>
  whenever the discount does not exceed the subtotal, and for a non-negative premium and
  fine it does not unless the promo code is FIRST100 on a subtotal under 100.
\<close>

theorem quote_total:
  "basePremium (quote m bp f p) = bp \<and> fine (quote m bp f p) = f
   \<and> gst (quote m bp f p)
       = 0.18 * max 0 (bp + f + convenienceFee (quote m bp f p) + emiInterest (quote m bp f p)
                        - discount (quote m bp f p))
   \<and> total (quote m bp f p)
       = max 0 (bp + f + convenienceFee (quote m bp f p) + emiInterest (quote m bp f p)
                 - discount (quote m bp f p))
         + gst (quote m bp f p)
   \<and> (discount (quote m bp f p)
         \<le> bp + f + convenienceFee (quote m bp f p) + emiInterest (quote m bp f p)
       \<longrightarrow> total (quote m bp f p)
             = bp + f + convenienceFee (quote m bp f p) + emiInterest (quote m bp f p)
               - discount (quote m bp f p) + gst (quote m bp f p))
   \<and> (0 \<le> bp \<and> 0 \<le> f
        \<and> (map toupper_c p \<noteq> ''FIRST100''
             \<or> 100 \<le> bp + f + convenienceFee (quote m bp f p) + emiInterest (quote m bp f p))
       \<longrightarrow> discount (quote m bp f p)
             \<le> bp + f + convenienceFee (quote m bp f p) + emiInterest (quote m bp f p))"
proof -
  define S where "S = bp + f + quote_conv m bp f + quote_emiInt m bp f"
  have q: "quote m bp f p =
     \<lparr>basePremium = bp, fine = f, discount = applyPromo p S,
      convenienceFee = quote_conv m bp f, emiInterest = quote_emiInt m bp f,
      gst = max 0 (S - applyPromo p S) * GST_RATE,
      total = max 0 (S - applyPromo p S) + max 0 (S - applyPromo p S) * GST_RATE\<rparr>"
    unfolding S_def by (rule quote_unfold)
  have S: "bp + f + convenienceFee (quote m bp f p) + emiInterest (quote m bp f p) = S"
    by (simp add: q S_def)
  have d: "discount (quote m bp f p) = applyPromo p S" by (simp add: q)
  have g: "gst (quote m bp f p) = 0.18 * max 0 (S - applyPromo p S)"
    by (simp add: q GST_RATE_def)
  have t: "total (quote m bp f p) = max 0 (S - applyPromo p S) + gst (quote m bp f p)"
    by (simp add: q)
  have le: "applyPromo p S \<le> S"
    if "0 \<le> bp \<and> 0 \<le> f \<and> (map toupper_c p \<noteq> ''FIRST100'' \<or> 100 \<le> S)"
  proof -
    have "0 \<le> S"
      using that quote_conv_nonneg [of bp f m] quote_emiInt_nonneg [of bp f m]
      by (simp add: S_def)
    then show ?thesis using that by (simp add: applyPromo_le)
  qed
  have b: "basePremium (quote m bp f p) = bp" "fine (quote m bp f p) = f"
    by (simp_all add: q)
  show ?thesis
    unfolding S d using b g t le by (simp add: max_def)
qed

lemma toupper_first100: "map toupper_c ''first100'' = ''FIRST100''"
  by code_simp

lemma toupper_FIRST100: "map toupper_c ''FIRST100'' = ''FIRST100''"
  by code_simp

lemma applyPromo_first100: "applyPromo ''first100'' S = 100"
  unfolding applyPromo_def Let_def toupper_first100 by simp

lemma applyPromo_FIRST100: "applyPromo ''FIRST100'' S = 100"
  unfolding applyPromo_def Let_def toupper_FIRST100 by simp

theorem quote_total_witness:
  "discount (quote UPI 11250 2200 ''first100'')
     \<le> 11250 + 2200 + convenienceFee (quote UPI 11250 2200 ''first100'')
        + emiInterest (quote UPI 11250 2200 ''first100'')
   \<and> (0 :: real) \<le> 11250 \<and> (0 :: real) \<le> 2200
   \<and> 100 \<le> 11250 + 2200 + convenienceFee (quote UPI 11250 2200 ''first100'')
        + emiInterest (quote UPI 11250 2200 ''first100'')
   \<and> total (quote UPI 11250 2200 ''first100'')
       = 11250 + 2200 + convenienceFee (quote UPI 11250 2200 ''first100'')
         + emiInterest (quote UPI 11250 2200 ''first100'')
         - discount (quote UPI 11250 2200 ''first100'') + gst (quote UPI 11250 2200 ''first100'')
   \<and> total (quote UPI 11250 2200 ''first100'') = 15753"
proof -
  have c: "convenienceFee (quote UPI 11250 2200 ''first100'') = 0"
    and e: "emiInterest (quote UPI 11250 2200 ''first100'') = 0"
    by (simp_all add: convenienceFee_quote emiInterest_quote quote_conv_def quote_emiInt_eq
        Method_defs)
  have d: "discount (quote UPI 11250 2200 ''first100'') = 100"
    by (simp add: quote_unfold applyPromo_first100)
  show ?thesis
    using quote_total [of UPI 11250 2200 "''first100''"] unfolding c e d by simp
qed

text \<open>
  Claim C2 as stated fails where the flat discount of FIRST100 exceeds the subtotal: for
  UPI with premium 0 and fine 0 the floor at 0 makes the total 0, while
  \<open>basePremium + fine + convenienceFee + emiInterest - discount + gst\<close> is \<open>-100\<close>.
\<close>

theorem quote_total_counterexample:
  "total (quote UPI 0 0 ''FIRST100'') = 0
   \<and> basePremium (quote UPI 0 0 ''FIRST100'') + fine (quote UPI 0 0 ''FIRST100'')
       + convenienceFee (quote UPI 0 0 ''FIRST100'') + emiInterest (quote UPI 0 0 ''FIRST100'')
       - discount (quote UPI 0 0 ''FIRST100'') + gst (quote UPI 0 0 ''FIRST100'') = - 100
   \<and> total (quote UPI 0 0 ''FIRST100'')
       \<noteq> basePremium (quote UPI 0 0 ''FIRST100'') + fine (quote UPI 0 0 ''FIRST100'')
         + convenienceFee (quote UPI 0 0 ''FIRST100'') + emiInterest (quote UPI 0 0 ''FIRST100'')
         - discount (quote UPI 0 0 ''FIRST100'') + gst (quote UPI 0 0 ''FIRST100'')"
  by (simp add: quote_unfold quote_conv_def quote_emiInt_eq Method_defs applyPromo_FIRST100
      GST_RATE_def)

subsection \<open>Premium\<close>

lemma sint_max_int: "sint (max_int 0 x) = max 0 (sint x)"
  by (simp add: max_int_def word_sless_alt)

lemma sint_diff_no_overflow:
  "- (2 ^ 31) \<le> sint (a :: cint) - sint (b :: cint) \<Longrightarrow> sint a - sint b < 2 ^ 31
   \<Longrightarrow> sint (a - b) = sint a - sint b"
  by (simp add: sint_word_ariths signed_take_bit_int_eq_self)

lemma getAgeFactor_eq:
  "getAgeFactor cy y = max 0.7 (1 - 0.03 * real_of_int (max 0 (sint (cy - y))))"
  by (simp add: getAgeFactor_def Let_def double_of_int_def sint_max_int MINIMUM_AGE_FACTOR_def
      AGE_DEPRECIATION_RATE_def del: of_int_sint)

lemma getFuelTypeAdjustment_eq:
  "getFuelTypeAdjustment ft =
     (if map tolower_c ft = ''electric'' then - 500
      else if map tolower_c ft = ''diesel'' then 250 else 0)"
  unfolding getFuelTypeAdjustment_def Let_def by (rule refl)

lemma calculatePremium_eq:
  "calculatePremium cy v =
     max 5000 (originalValue v * 0.025 * getAgeFactor cy (year_v v)
               + getFuelTypeAdjustment (fuelType v))"
  by (simp add: calculatePremium_def Let_def getBaseRate_def BASE_RATE_PERCENTAGE_def
      MINIMUM_PREMIUM_def max_def)

text \<open>
  Claim C6. For every vehicle, system year and fuel type string, \<open>calculatePremium\<close> is
  \<open>max 5000 (originalValue * 0.025 * max 0.7 (1 - 0.03 * max 0 (currentYear -
  manufactureYear)) + fuelAdjustment)\<close>, where the adjustment is \<open>-500\<close> when the fuel type
  in lower case is "electric", \<open>250\<close> when it is "diesel", and 0 otherwise; so the premium
  is never below 5000. The difference of the years is the one the code takes, in \<^verbatim>\<open>int\<close>;
  it is the difference of the two integers whenever that fits an \<^verbatim>\<open>int\<close> (otherwise the
  subtraction overflows, which C++ leaves undefined).
\<close>

theorem calculatePremium_formula:
  "calculatePremium cy v =
     max 5000 (originalValue v * 0.025
                 * max 0.7 (1 - 0.03 * real_of_int (max 0 (sint (cy - year_v v))))
               + (if map tolower_c (fuelType v) = ''electric'' then - 500
                  else if map tolower_c (fuelType v) = ''diesel'' then 250 else 0))
   \<and> 5000 \<le> calculatePremium cy v
   \<and> (- (2 ^ 31) \<le> sint cy - sint (year_v v) \<and> sint cy - sint (year_v v) < 2 ^ 31 \<longrightarrow>
        calculatePremium cy v =
          max 5000 (originalValue v * 0.025
                      * max 0.7 (1 - 0.03 * real_of_int (max 0 (sint cy - sint (year_v v))))
                    + (if map tolower_c (fuelType v) = ''electric'' then - 500
                       else if map tolower_c (fuelType v) = ''diesel'' then 250 else 0)))"
proof (intro conjI impI)
  show f: "calculatePremium cy v =
     max 5000 (originalValue v * 0.025
                 * max 0.7 (1 - 0.03 * real_of_int (max 0 (sint (cy - year_v v))))
               + (if map tolower_c (fuelType v) = ''electric'' then - 500
                  else if map tolower_c (fuelType v) = ''diesel'' then 250 else 0))"
    unfolding calculatePremium_eq getAgeFactor_eq getFuelTypeAdjustment_eq by (rule refl)
  show "5000 \<le> calculatePremium cy v"
    unfolding calculatePremium_eq by (rule max.cobounded1)
  assume "- (2 ^ 31) \<le> sint cy - sint (year_v v) \<and> sint cy - sint (year_v v) < 2 ^ 31"
  then have "sint (cy - year_v v) = sint cy - sint (year_v v)"
    by (simp add: sint_diff_no_overflow)
  with f show "calculatePremium cy v =
          max 5000 (originalValue v * 0.025
                      * max 0.7 (1 - 0.03 * real_of_int (max 0 (sint cy - sint (year_v v))))
                    + (if map tolower_c (fuelType v) = ''electric'' then - 500
                       else if map tolower_c (fuelType v) = ''diesel'' then 250 else 0))"
    by (simp only:)
qed

lemma tolower_Diesel: "map tolower_c ''Diesel'' = ''diesel''"
  by code_simp

lemma example_vehicle_fields:
  "originalValue example_vehicle = 500000" "year_v example_vehicle = 2020"
  "fuelType example_vehicle = ''Diesel''"
  by (simp_all add: example_vehicle_def Vehicle_ctor_def)

theorem calculatePremium_formula_witness:
  "- (2 ^ 31) \<le> sint (2024 :: cint) - sint (year_v example_vehicle)
   \<and> sint (2024 :: cint) - sint (year_v example_vehicle) < 2 ^ 31
   \<and> map tolower_c (fuelType example_vehicle) = ''diesel''
   \<and> calculatePremium 2024 example_vehicle = 11250"
proof -
  have h: "- (2 ^ 31) \<le> sint (2024 :: cint) - sint (year_v example_vehicle)
      \<and> sint (2024 :: cint) - sint (year_v example_vehicle) < 2 ^ 31"
    by (simp add: example_vehicle_fields)
  have l: "map tolower_c (fuelType example_vehicle) = ''diesel''"
    unfolding example_vehicle_fields by (rule tolower_Diesel)
  have "calculatePremium 2024 example_vehicle = 11250"
    using calculatePremium_formula [of 2024 example_vehicle] h
    unfolding l by (simp add: example_vehicle_fields)
  with h l show ?thesis by blast
qed

subsection \<open>Renewal\<close>

lemma expired_status:
  "expired (evaluateStatus daysBetween v currentDate) \<Longrightarrow>
   status_s (evaluateStatus daysBetween v currentDate) = ''OVERDUE / EXPIRED''"
  by (simp add: evaluateStatus_def Let_def split: if_splits)

lemma valid_quoteAndChoosePayment:
  "valid (quoteAndChoosePayment bp f inp)
     \<longleftrightarrow> 1 \<le> sint (methodChoice inp) \<and> sint (methodChoice inp) \<le> 6"
  unfolding quoteAndChoosePayment_def Let_def BillAndMethod_ctor_def
  by (auto simp: word_sless_alt)

lemma performRenewal_disabled:
  "\<not> expired (evaluateStatus daysBetween v currentDate) \<Longrightarrow>
   performRenewal daysBetween currentYear inp v currentDate = (RenewalDisabled, v)"
  by (simp add: performRenewal_def Let_def)

lemma performRenewal_invalid:
  assumes "expired (evaluateStatus daysBetween v currentDate)"
    and "sint (methodChoice inp) < 1 \<or> 6 < sint (methodChoice inp)"
  shows "performRenewal daysBetween currentYear inp v currentDate =
           (SelectionInvalid, setPolicyStatus v ''OVERDUE / EXPIRED'')"
proof -
  have "\<not> valid (quoteAndChoosePayment (calculatePremium currentYear v)
            (fine_s (evaluateStatus daysBetween v currentDate)) inp)"
    using assms(2) by (auto simp: valid_quoteAndChoosePayment)
  then show ?thesis
    using assms(1) expired_status [OF assms(1)] by (simp add: performRenewal_def Let_def)
qed

lemma performRenewal_cancelled:
  assumes "expired (evaluateStatus daysBetween v currentDate)"
    and "1 \<le> sint (methodChoice inp) \<and> sint (methodChoice inp) \<le> 6"
    and "\<not> confirmAndPay
            (bill (quoteAndChoosePayment (calculatePremium currentYear v)
                     (fine_s (evaluateStatus daysBetween v currentDate)) inp))
            (method_c (quoteAndChoosePayment (calculatePremium currentYear v)
                     (fine_s (evaluateStatus daysBetween v currentDate)) inp))
            (confirmChar inp)"
  shows "performRenewal daysBetween currentYear inp v currentDate =
           (PaymentCancelled, setPolicyStatus v ''OVERDUE / EXPIRED'')"
proof -
  have "valid (quoteAndChoosePayment (calculatePremium currentYear v)
            (fine_s (evaluateStatus daysBetween v currentDate)) inp)"
    using assms(2) by (simp add: valid_quoteAndChoosePayment)
  then show ?thesis
    using assms(1,3) expired_status [OF assms(1)] by (simp add: performRenewal_def Let_def)
qed

lemma performRenewal_renewed:
  assumes "expired (evaluateStatus daysBetween v currentDate)"
    and "1 \<le> sint (methodChoice inp) \<and> sint (methodChoice inp) \<le> 6"
    and "confirmAndPay
            (bill (quoteAndChoosePayment (calculatePremium currentYear v)
                     (fine_s (evaluateStatus daysBetween v currentDate)) inp))
            (method_c (quoteAndChoosePayment (calculatePremium currentYear v)
                     (fine_s (evaluateStatus daysBetween v currentDate)) inp))
            (confirmChar inp)"
  shows "performRenewal daysBetween currentYear inp v currentDate =
           (Renewed,
            v\<lparr>policy := (policy v)\<lparr>renewalDueDate := calculateRenewalDate (renewalDueDate (policy v)),
                                    status := ''Active''\<rparr>\<rparr>)"
proof -
  have "valid (quoteAndChoosePayment (calculatePremium currentYear v)
            (fine_s (evaluateStatus daysBetween v currentDate)) inp)"
    using assms(2) by (simp add: valid_quoteAndChoosePayment)
  then show ?thesis
    using assms(1,3)
    by (simp add: performRenewal_def Let_def setPolicyStatus_def setRenewalDueDate_def
        getRenewalDueDate_def)
qed

lemma performRenewal_cases:
  "performRenewal daysBetween currentYear inp v currentDate = (RenewalDisabled, v)
   \<or> performRenewal daysBetween currentYear inp v currentDate
        = (SelectionInvalid, setPolicyStatus v ''OVERDUE / EXPIRED'')
   \<or> performRenewal daysBetween currentYear inp v currentDate
        = (PaymentCancelled, setPolicyStatus v ''OVERDUE / EXPIRED'')
   \<or> performRenewal daysBetween currentYear inp v currentDate
        = (Renewed,
           v\<lparr>policy := (policy v)\<lparr>renewalDueDate := calculateRenewalDate (renewalDueDate (policy v)),
                                   status := ''Active''\<rparr>\<rparr>)"
proof (cases "expired (evaluateStatus daysBetween v currentDate)")
  case False
  then show ?thesis by (simp only: performRenewal_disabled simp_thms)
next
  case True
  show ?thesis
  proof (cases "1 \<le> sint (methodChoice inp) \<and> sint (methodChoice inp) \<le> 6")
    case False
    then have "sint (methodChoice inp) < 1 \<or> 6 < sint (methodChoice inp)" by linarith
    from performRenewal_invalid [OF True this] show ?thesis by blast
  next
    case range: True
    show ?thesis
    proof (cases "confirmAndPay
            (bill (quoteAndChoosePayment (calculatePremium currentYear v)
                     (fine_s (evaluateStatus daysBetween v currentDate)) inp))
            (method_c (quoteAndChoosePayment (calculatePremium currentYear v)
                     (fine_s (evaluateStatus daysBetween v currentDate)) inp))
            (confirmChar inp)")
      case True
      from performRenewal_renewed [OF \<open>expired _\<close> range True] show ?thesis by blast
    next
      case False
      from performRenewal_cancelled [OF \<open>expired _\<close> range False] show ?thesis by blast
    qed
  qed
qed

lemma performRenewal_changes_policy_only:
  "\<exists>d s. snd (performRenewal daysBetween currentYear inp v currentDate)
               = v\<lparr>policy := (policy v)\<lparr>renewalDueDate := d, status := s\<rparr>\<rparr>"
proof -
  from performRenewal_cases [of daysBetween currentYear inp v currentDate]
  show ?thesis
  proof (elim disjE)
    assume h: "performRenewal daysBetween currentYear inp v currentDate = (RenewalDisabled, v)"
    show ?thesis unfolding h
      by (rule exI [of _ "renewalDueDate (policy v)"], rule exI [of _ "status (policy v)"]) simp
  next
    assume h: "performRenewal daysBetween currentYear inp v currentDate
        = (SelectionInvalid, setPolicyStatus v ''OVERDUE / EXPIRED'')"
    show ?thesis unfolding h
      by (rule exI [of _ "renewalDueDate (policy v)"], rule exI [of _ "''OVERDUE / EXPIRED''"])
        (simp add: setPolicyStatus_def)
  next
    assume h: "performRenewal daysBetween currentYear inp v currentDate
        = (PaymentCancelled, setPolicyStatus v ''OVERDUE / EXPIRED'')"
    show ?thesis unfolding h
      by (rule exI [of _ "renewalDueDate (policy v)"], rule exI [of _ "''OVERDUE / EXPIRED''"])
        (simp add: setPolicyStatus_def)
  next
    assume h: "performRenewal daysBetween currentYear inp v currentDate
        = (Renewed,
           v\<lparr>policy := (policy v)\<lparr>renewalDueDate := calculateRenewalDate (renewalDueDate (policy v)),
                                   status := ''Active''\<rparr>\<rparr>)"
    show ?thesis unfolding h
      by (rule exI [of _ "calculateRenewalDate (renewalDueDate (policy v))"],
          rule exI [of _ "''Active''"]) simp
  qed
qed

text \<open>
  Claim C10. In every outcome (renewal disabled, selection invalid, payment cancelled,
  renewal committed) \<open>performRenewal\<close> leaves the make, the model, the manufacture year, the
  original value, the fuel type and the registration date of the vehicle as they were:
  the vehicle after it is the vehicle before it with at most another renewal due date
  and another status.
\<close>

theorem performRenewal_frame:
  "make_v (snd (performRenewal daysBetween currentYear inp v currentDate)) = make_v v
   \<and> model (snd (performRenewal daysBetween currentYear inp v currentDate)) = model v
   \<and> year_v (snd (performRenewal daysBetween currentYear inp v currentDate)) = year_v v
   \<and> originalValue (snd (performRenewal daysBetween currentYear inp v currentDate))
       = originalValue v
   \<and> fuelType (snd (performRenewal daysBetween currentYear inp v currentDate)) = fuelType v
   \<and> registrationDate (policy (snd (performRenewal daysBetween currentYear inp v currentDate)))
       = registrationDate (policy v)
   \<and> (\<exists>d s. snd (performRenewal daysBetween currentYear inp v currentDate)
               = v\<lparr>policy := (policy v)\<lparr>renewalDueDate := d, status := s\<rparr>\<rparr>)"
proof -
  obtain d s where e:
    "snd (performRenewal daysBetween currentYear inp v currentDate)
       = v\<lparr>policy := (policy v)\<lparr>renewalDueDate := d, status := s\<rparr>\<rparr>"
    using performRenewal_changes_policy_only by blast
  have "\<exists>d s. snd (performRenewal daysBetween currentYear inp v currentDate)
               = v\<lparr>policy := (policy v)\<lparr>renewalDueDate := d, status := s\<rparr>\<rparr>"
    by (rule performRenewal_changes_policy_only)
  then show ?thesis unfolding e by simp
qed


lemma example_expired:
  "expired (evaluateStatus (daysBetween_const (- 74)) example_vehicle example_today)"
  by (simp add: evaluateStatus_def daysBetween_const_def llabs_def longlong_of_int_def
      GRACE_PERIOD_DAYS_def Let_def word_sle_eq word_sless_alt)

lemma example_policy:
  "policy example_vehicle =
     \<lparr>registrationDate = \<lparr>day = 1, month = 1, year = 2023\<rparr>,
      renewalDueDate = \<lparr>day = 1, month = 1, year = 2024\<rparr>, status = ''New''\<rparr>"
  by (simp add: example_vehicle_def Vehicle_ctor_def calculateRenewalDate_def)

lemma fst_performRenewal_Renewed:
  assumes "fst (performRenewal daysBetween currentYear inp v currentDate) = Renewed"
  shows "performRenewal daysBetween currentYear inp v currentDate
        = (Renewed,
           v\<lparr>policy := (policy v)\<lparr>renewalDueDate := calculateRenewalDate (renewalDueDate (policy v)),
                                   status := ''Active''\<rparr>\<rparr>)"
  using performRenewal_cases [of daysBetween currentYear inp v currentDate] assms
  by (elim disjE) simp_all

lemma fst_performRenewal_not_Renewed:
  assumes "fst (performRenewal daysBetween currentYear inp v currentDate) \<noteq> Renewed"
  shows "snd (performRenewal daysBetween currentYear inp v currentDate) = v
       \<or> snd (performRenewal daysBetween currentYear inp v currentDate)
           = setPolicyStatus v ''OVERDUE / EXPIRED''"
  using performRenewal_cases [of daysBetween currentYear inp v currentDate] assms
  by (elim disjE) simp_all

text \<open>
  Claim C7. At construction the renewal due date is \<open>calculateRenewalDate\<close> of the
  registration date, and every committed renewal replaces the due date by
  \<open>calculateRenewalDate\<close> of the prior due date, leaving the registration date; a run that
  does not commit leaves the due date. \<open>calculateRenewalDate\<close> keeps day and month and adds 1
  to the year (in \<^verbatim>\<open>int\<close>: the year after, unless the year is the greatest \<^verbatim>\<open>int\<close>, where
  the addition overflows).
\<close>

theorem renewal_due_date_one_year:
  "registrationDate (policy (Vehicle_ctor m mdl y val ft regDate)) = regDate
   \<and> renewalDueDate (policy (Vehicle_ctor m mdl y val ft regDate)) = calculateRenewalDate regDate
   \<and> day (calculateRenewalDate d) = day d
   \<and> month (calculateRenewalDate d) = month d
   \<and> year (calculateRenewalDate d) = year d + 1
   \<and> (sint (year d) < 2 ^ 31 - 1 \<longrightarrow> sint (year (calculateRenewalDate d)) = sint (year d) + 1)
   \<and> (fst (performRenewal daysBetween currentYear inp v currentDate) = Renewed \<longrightarrow>
        renewalDueDate (policy (snd (performRenewal daysBetween currentYear inp v currentDate)))
          = calculateRenewalDate (renewalDueDate (policy v))
      \<and> registrationDate (policy (snd (performRenewal daysBetween currentYear inp v currentDate)))
          = registrationDate (policy v))
   \<and> (fst (performRenewal daysBetween currentYear inp v currentDate) \<noteq> Renewed \<longrightarrow>
        renewalDueDate (policy (snd (performRenewal daysBetween currentYear inp v currentDate)))
          = renewalDueDate (policy v))"
proof (intro conjI impI)
  show "registrationDate (policy (Vehicle_ctor m mdl y val ft regDate)) = regDate"
    and "renewalDueDate (policy (Vehicle_ctor m mdl y val ft regDate)) = calculateRenewalDate regDate"
    by (simp_all add: Vehicle_ctor_def)
  show "day (calculateRenewalDate d) = day d" and "month (calculateRenewalDate d) = month d"
    and "year (calculateRenewalDate d) = year d + 1"
    by (simp_all add: calculateRenewalDate_def)
  show "sint (year (calculateRenewalDate d)) = sint (year d) + 1" if "sint (year d) < 2 ^ 31 - 1"
    using that by (simp add: calculateRenewalDate_def sint_add1)
next
  assume r: "fst (performRenewal daysBetween currentYear inp v currentDate) = Renewed"
  show "renewalDueDate (policy (snd (performRenewal daysBetween currentYear inp v currentDate)))
          = calculateRenewalDate (renewalDueDate (policy v))"
    and "registrationDate (policy (snd (performRenewal daysBetween currentYear inp v currentDate)))
          = registrationDate (policy v)"
    unfolding fst_performRenewal_Renewed [OF r] by simp_all
next
  assume "fst (performRenewal daysBetween currentYear inp v currentDate) \<noteq> Renewed"
  from fst_performRenewal_not_Renewed [OF this]
  show "renewalDueDate (policy (snd (performRenewal daysBetween currentYear inp v currentDate)))
          = renewalDueDate (policy v)"
    by (auto simp: setPolicyStatus_def)
qed


lemma example_renewed:
  "performRenewal (daysBetween_const (- 74)) 2024
      \<lparr>methodChoice = 2, promo = ''FIRST100'', confirmChar = CHR ''y''\<rparr>
      example_vehicle example_today
   = (Renewed,
      example_vehicle\<lparr>policy := (policy example_vehicle)
         \<lparr>renewalDueDate := calculateRenewalDate (renewalDueDate (policy example_vehicle)),
          status := ''Active''\<rparr>\<rparr>)"
  by (rule performRenewal_renewed [OF example_expired]) (simp_all add: confirmAndPay_def)

lemma example_invalid:
  "performRenewal (daysBetween_const (- 74)) 2024
      \<lparr>methodChoice = 7, promo = [], confirmChar = CHR ''y''\<rparr>
      example_vehicle example_today
   = (SelectionInvalid, setPolicyStatus example_vehicle ''OVERDUE / EXPIRED'')"
  by (rule performRenewal_invalid [OF example_expired]) simp

lemma example_cancelled:
  "performRenewal (daysBetween_const (- 74)) 2024
      \<lparr>methodChoice = 2, promo = [], confirmChar = CHR ''n''\<rparr>
      example_vehicle example_today
   = (PaymentCancelled, setPolicyStatus example_vehicle ''OVERDUE / EXPIRED'')"
  by (rule performRenewal_cancelled [OF example_expired]) (simp_all add: confirmAndPay_def)

theorem renewal_due_date_one_year_witness:
  "sint (year \<lparr>day = 1, month = 1, year = 2023\<rparr>) < 2 ^ 31 - 1
   \<and> sint (year (calculateRenewalDate \<lparr>day = 1, month = 1, year = 2023\<rparr>)) = 2024
   \<and> fst (performRenewal (daysBetween_const (- 74)) 2024
        \<lparr>methodChoice = 2, promo = ''FIRST100'', confirmChar = CHR ''y''\<rparr>
        example_vehicle example_today) = Renewed
   \<and> renewalDueDate (policy (snd (performRenewal (daysBetween_const (- 74)) 2024
        \<lparr>methodChoice = 2, promo = ''FIRST100'', confirmChar = CHR ''y''\<rparr>
        example_vehicle example_today))) = \<lparr>day = 1, month = 1, year = 2025\<rparr>
   \<and> fst (performRenewal (daysBetween_const (- 74)) 2024
        \<lparr>methodChoice = 2, promo = [], confirmChar = CHR ''n''\<rparr>
        example_vehicle example_today) \<noteq> Renewed
   \<and> renewalDueDate (policy (snd (performRenewal (daysBetween_const (- 74)) 2024
        \<lparr>methodChoice = 2, promo = [], confirmChar = CHR ''n''\<rparr>
        example_vehicle example_today))) = \<lparr>day = 1, month = 1, year = 2024\<rparr>"
proof -
  have r: "fst (performRenewal (daysBetween_const (- 74)) 2024
        \<lparr>methodChoice = 2, promo = ''FIRST100'', confirmChar = CHR ''y''\<rparr>
        example_vehicle example_today) = Renewed"
    by (simp add: example_renewed)
  have c: "fst (performRenewal (daysBetween_const (- 74)) 2024
        \<lparr>methodChoice = 2, promo = [], confirmChar = CHR ''n''\<rparr>
        example_vehicle example_today) \<noteq> Renewed"
    by (simp add: example_cancelled)
  have d: "calculateRenewalDate \<lparr>day = 1, month = 1, year = 2024\<rparr>
      = \<lparr>day = 1, month = 1, year = 2025\<rparr>"
    by (simp add: calculateRenewalDate_def)
  note t1 = renewal_due_date_one_year [of _ _ _ _ _ _ "\<lparr>day = 1, month = 1, year = 2023\<rparr>"
      "daysBetween_const (- 74)" 2024
      "\<lparr>methodChoice = 2, promo = ''FIRST100'', confirmChar = CHR ''y''\<rparr>"
      example_vehicle example_today]
  note t2 = renewal_due_date_one_year [of _ _ _ _ _ _ "\<lparr>day = 1, month = 1, year = 2023\<rparr>"
      "daysBetween_const (- 74)" 2024
      "\<lparr>methodChoice = 2, promo = [], confirmChar = CHR ''n''\<rparr>"
      example_vehicle example_today]
  have "sint (year \<lparr>day = 1, month = 1, year = 2023\<rparr>) < 2 ^ 31 - 1" by simp
  moreover from this t1
  have "sint (year (calculateRenewalDate \<lparr>day = 1, month = 1, year = 2023\<rparr>)) = 2024"
    by simp
  moreover from r t1
  have "renewalDueDate (policy (snd (performRenewal (daysBetween_const (- 74)) 2024
        \<lparr>methodChoice = 2, promo = ''FIRST100'', confirmChar = CHR ''y''\<rparr>
        example_vehicle example_today))) = \<lparr>day = 1, month = 1, year = 2025\<rparr>"
    by (simp add: example_policy d)
  moreover from c t2
  have "renewalDueDate (policy (snd (performRenewal (daysBetween_const (- 74)) 2024
        \<lparr>methodChoice = 2, promo = [], confirmChar = CHR ''n''\<rparr>
        example_vehicle example_today))) = \<lparr>day = 1, month = 1, year = 2024\<rparr>"
    by (simp add: example_policy)
  ultimately show ?thesis using r c by blast
qed

text \<open>
  Claim C1, amended. When the selected payment method is invalid or the confirmation is
  refused, \<open>performRenewal\<close> commits nothing: the registration date and the renewal due date
  are as before. The status is not: on an expired policy the evaluated status
  OVERDUE / EXPIRED has been written before the payment step, so the policy after the run
  is the policy before it with that status, and equals it only if the status was that
  already (as it is when \<^verbatim>\<open>main\<close> calls \<open>performRenewal\<close>). On a policy that is not expired
  nothing is written.
\<close>

theorem performRenewal_failed_payment:
  assumes "sint (methodChoice inp) < 1 \<or> 6 < sint (methodChoice inp)
     \<or> \<not> confirmAndPay
            (bill (quoteAndChoosePayment (calculatePremium currentYear v)
                     (fine_s (evaluateStatus daysBetween v currentDate)) inp))
            (method_c (quoteAndChoosePayment (calculatePremium currentYear v)
                     (fine_s (evaluateStatus daysBetween v currentDate)) inp))
            (confirmChar inp)"
  shows "fst (performRenewal daysBetween currentYear inp v currentDate) \<noteq> Renewed
     \<and> policy (snd (performRenewal daysBetween currentYear inp v currentDate))
         = (if expired (evaluateStatus daysBetween v currentDate)
            then (policy v)\<lparr>status := ''OVERDUE / EXPIRED''\<rparr> else policy v)
     \<and> registrationDate (policy (snd (performRenewal daysBetween currentYear inp v currentDate)))
         = registrationDate (policy v)
     \<and> renewalDueDate (policy (snd (performRenewal daysBetween currentYear inp v currentDate)))
         = renewalDueDate (policy v)
     \<and> (status (policy v) = ''OVERDUE / EXPIRED'' \<longrightarrow>
          policy (snd (performRenewal daysBetween currentYear inp v currentDate)) = policy v)"
proof (cases "expired (evaluateStatus daysBetween v currentDate)")
  case False
  then show ?thesis by (simp add: performRenewal_disabled)
next
  case True
  have "performRenewal daysBetween currentYear inp v currentDate
          = (SelectionInvalid, setPolicyStatus v ''OVERDUE / EXPIRED'')
      \<or> performRenewal daysBetween currentYear inp v currentDate
          = (PaymentCancelled, setPolicyStatus v ''OVERDUE / EXPIRED'')"
  proof (cases "1 \<le> sint (methodChoice inp) \<and> sint (methodChoice inp) \<le> 6")
    case False
    then have "sint (methodChoice inp) < 1 \<or> 6 < sint (methodChoice inp)" by linarith
    from performRenewal_invalid [OF True this] show ?thesis by blast
  next
    case range: True
    with assms have "\<not> confirmAndPay
            (bill (quoteAndChoosePayment (calculatePremium currentYear v)
                     (fine_s (evaluateStatus daysBetween v currentDate)) inp))
            (method_c (quoteAndChoosePayment (calculatePremium currentYear v)
                     (fine_s (evaluateStatus daysBetween v currentDate)) inp))
            (confirmChar inp)"
      by linarith
    from performRenewal_cancelled [OF True range this] show ?thesis by blast
  qed
  then show ?thesis
    using True by (elim disjE) (simp_all add: setPolicyStatus_def)
qed

theorem performRenewal_failed_payment_witness:
  "(sint (methodChoice \<lparr>methodChoice = 7, promo = [], confirmChar = CHR ''y''\<rparr>) < 1
      \<or> 6 < sint (methodChoice \<lparr>methodChoice = 7, promo = [], confirmChar = CHR ''y''\<rparr>))
   \<and> expired (evaluateStatus (daysBetween_const (- 74)) example_vehicle example_today)
   \<and> policy (snd (performRenewal (daysBetween_const (- 74)) 2024
        \<lparr>methodChoice = 7, promo = [], confirmChar = CHR ''y''\<rparr>
        example_vehicle example_today))
      = \<lparr>registrationDate = \<lparr>day = 1, month = 1, year = 2023\<rparr>,
         renewalDueDate = \<lparr>day = 1, month = 1, year = 2024\<rparr>,
         status = ''OVERDUE / EXPIRED''\<rparr>"
proof -
  have h: "sint (methodChoice \<lparr>methodChoice = 7, promo = [], confirmChar = CHR ''y''\<rparr>) < 1
      \<or> 6 < sint (methodChoice \<lparr>methodChoice = 7, promo = [], confirmChar = CHR ''y''\<rparr>)"
    by simp
  then have h': "sint (methodChoice \<lparr>methodChoice = 7, promo = [], confirmChar = CHR ''y''\<rparr>) < 1
     \<or> 6 < sint (methodChoice \<lparr>methodChoice = 7, promo = [], confirmChar = CHR ''y''\<rparr>)
     \<or> \<not> confirmAndPay
            (bill (quoteAndChoosePayment (calculatePremium 2024 example_vehicle)
                     (fine_s (evaluateStatus (daysBetween_const (- 74)) example_vehicle example_today))
                     \<lparr>methodChoice = 7, promo = [], confirmChar = CHR ''y''\<rparr>))
            (method_c (quoteAndChoosePayment (calculatePremium 2024 example_vehicle)
                     (fine_s (evaluateStatus (daysBetween_const (- 74)) example_vehicle example_today))
                     \<lparr>methodChoice = 7, promo = [], confirmChar = CHR ''y''\<rparr>))
            (confirmChar \<lparr>methodChoice = 7, promo = [], confirmChar = CHR ''y''\<rparr>)"
    by blast
  from performRenewal_failed_payment [OF h']
  have "policy (snd (performRenewal (daysBetween_const (- 74)) 2024
        \<lparr>methodChoice = 7, promo = [], confirmChar = CHR ''y''\<rparr>
        example_vehicle example_today))
      = (policy example_vehicle)\<lparr>status := ''OVERDUE / EXPIRED''\<rparr>"
    by (simp only: example_expired if_True)
  then have "policy (snd (performRenewal (daysBetween_const (- 74)) 2024
        \<lparr>methodChoice = 7, promo = [], confirmChar = CHR ''y''\<rparr>
        example_vehicle example_today))
      = \<lparr>registrationDate = \<lparr>day = 1, month = 1, year = 2023\<rparr>,
         renewalDueDate = \<lparr>day = 1, month = 1, year = 2024\<rparr>,
         status = ''OVERDUE / EXPIRED''\<rparr>"
    by (simp add: example_policy)
  with h example_expired show ?thesis by blast
qed

text \<open>
  Claim C1 as stated fails on a vehicle whose status is not yet the evaluated one: the
  example vehicle, with the status New of its constructor and 74 days overdue, has the
  status OVERDUE / EXPIRED after a run with the invalid method 7, and after a run with
  method 2 and the confirmation refused.
\<close>

theorem performRenewal_failed_payment_counterexample:
  "status (policy example_vehicle) = ''New''
   \<and> fst (performRenewal (daysBetween_const (- 74)) 2024
        \<lparr>methodChoice = 7, promo = [], confirmChar = CHR ''y''\<rparr>
        example_vehicle example_today) = SelectionInvalid
   \<and> status (policy (snd (performRenewal (daysBetween_const (- 74)) 2024
        \<lparr>methodChoice = 7, promo = [], confirmChar = CHR ''y''\<rparr>
        example_vehicle example_today))) = ''OVERDUE / EXPIRED''
   \<and> policy (snd (performRenewal (daysBetween_const (- 74)) 2024
        \<lparr>methodChoice = 7, promo = [], confirmChar = CHR ''y''\<rparr>
        example_vehicle example_today)) \<noteq> policy example_vehicle
   \<and> fst (performRenewal (daysBetween_const (- 74)) 2024
        \<lparr>methodChoice = 2, promo = [], confirmChar = CHR ''n''\<rparr>
        example_vehicle example_today) = PaymentCancelled
   \<and> policy (snd (performRenewal (daysBetween_const (- 74)) 2024
        \<lparr>methodChoice = 2, promo = [], confirmChar = CHR ''n''\<rparr>
        example_vehicle example_today)) \<noteq> policy example_vehicle"
  unfolding example_invalid example_cancelled
  by (simp add: setPolicyStatus_def example_policy)

end
